theory Spec2Isabelle
  imports Main "HOL-Library.Word"
begin

unbundle bit_operations_syntax

section \<open>Exceptions and state\<close>

text \<open>
  The Python exception classes that the interpreter raises or lets through.
  \<open>StructError\<close> is \<open>struct.error\<close>; \<open>TypeError\<close> and \<open>AttributeError\<close> are what
  Python raises on an operation applied to \<open>None\<close>.
\<close>

datatype error =
    UndefinedError
  | MemoryAccessError
  | UnimplementedError
  | ValueError
  | KeyError
  | TypeError
  | AttributeError
  | StructError
  | StopIteration

text \<open>
  A method of the interpreter takes the state and gives back its outcome (the
  exception raised, or the value returned) together with the state it leaves
  behind. The state is kept on the exceptional path as well, since an exception
  does not undo the writes made before it.
\<close>

type_synonym ('s, 'a) exec = "'s \<Rightarrow> (error + 'a) \<times> 's"

definition returns :: "'a \<Rightarrow> ('s, 'a) exec" where
  "returns a s = (Inr a, s)"

definition raises :: "error \<Rightarrow> ('s, 'a) exec" where
  "raises e s = (Inl e, s)"

definition and_then :: "('s, 'a) exec \<Rightarrow> ('a \<Rightarrow> ('s, 'b) exec) \<Rightarrow> ('s, 'b) exec" where
  "and_then m f s = (case m s of (Inl e, s') \<Rightarrow> (Inl e, s') | (Inr a, s') \<Rightarrow> f a s')"

section \<open>Registers and architecture\<close>

datatype ImplicitRegisterExtend = NoExtend | ZeroExtendToFullWidth | SignExtendToFullWidth

text \<open>
  The keys of \<open>arch.regs\<close> and of the register store \<open>self._regs\<close>: a Python
  integer (a temporary register's index) or a string (a register's name).
\<close>

datatype reg_id = Index int | Name string

record ILRegister =
  index :: int
  name :: string

text \<open>
  What callers pass as \<open>register\<close>: an integer or a name (both usable as keys as
  they are), or an \<open>ILRegister\<close> object.
\<close>

datatype register = Id reg_id | ILReg ILRegister

record RegisterInfo =
  full_width_reg :: reg_id
  size_bytes :: nat
  offset :: nat
  extend_policy :: ImplicitRegisterExtend

datatype Endianness = LittleEndian | BigEndian

record Architecture =
  regs :: "reg_id \<rightharpoonup> RegisterInfo"
  stack_pointer :: reg_id
  endianness :: Endianness
  address_size :: nat

section \<open>Expressions\<close>

text \<open>
  The low-level IL nodes that have a \<open>visit_\<close> method, each with the operands
  its method reads (\<open>size\<close> first where the method reads \<open>expr.size\<close>).
\<close>

datatype expr =
    LLIL_SET_REG register expr
  | LLIL_CONST int
  | LLIL_CONST_PTR int
  | LLIL_REG register
  | LLIL_LOAD nat expr
  | LLIL_STORE nat expr expr
  | LLIL_PUSH nat expr
  | LLIL_POP nat
  | LLIL_GOTO int
  | LLIL_IF expr int int
  | LLIL_CMP_NE expr expr
  | LLIL_CMP_E expr expr
  | LLIL_CMP_SLT nat expr expr
  | LLIL_CMP_UGT expr expr
  | LLIL_ADD nat expr expr
  | LLIL_AND expr expr
  | LLIL_OR expr expr
  | LLIL_SUB expr expr
  | LLIL_SET_FLAG int expr
  | LLIL_FLAG int
  | LLIL_RET
  | LLIL_CALL expr
  | LLIL_SX nat expr
  | LLIL_ZX expr
  | LLIL_XOR expr expr
  | LLIL_LSL nat expr expr
  | LLIL_LSR expr expr

record LowLevelILFunction =
  arch :: Architecture
  instrs :: "expr list"

section \<open>Memory\<close>

type_synonym byte = nat

record segment =
  seg_start :: int
  seg_length :: nat
  seg_flags :: nat
  seg_data :: "byte list"

section \<open>Interpreter state\<close>

text \<open>
  A value produced by a \<open>visit_\<close> method: an integer or a boolean. Python's
  \<open>bool\<close> is a subclass of \<open>int\<close> (\<open>True == 1\<close>, \<open>False == 0\<close>), which
  \<open>int_of\<close> reads off wherever a value is used as a number.
\<close>

datatype pyval = PInt int | PBool bool

fun int_of :: "pyval \<Rightarrow> int" where
  "int_of (PInt i) = i"
| "int_of (PBool b) = (if b then 1 else 0)"

fun truthy :: "pyval \<Rightarrow> bool" where
  "truthy (PInt i) = (i \<noteq> 0)"
| "truthy (PBool b) = b"

text \<open>
  The fields of an \<open>Emilator\<close> object other than the hook registry:
  \<open>self._function\<close>, \<open>self._view\<close>, \<open>self._regs\<close>, \<open>self._flags\<close>,
  \<open>self._memory\<close> and \<open>self.instr_index\<close>. The view is the external
  collaborator's object, of a type \<open>'v\<close> left open. Temporary registers and
  full-width registers share the one dictionary \<open>self._regs\<close>.
\<close>

record 'v emilator =
  cur_function :: LowLevelILFunction
  view :: 'v
  registers :: "reg_id \<rightharpoonup> int"
  flags :: "int \<rightharpoonup> pyval"
  memory :: "segment list"
  instr_index :: int

text \<open>
  What the interpreter imports from the \<open>binaryninja\<close> package and from the host:
  the temporary-register marker \<open>LLIL_REG_IS_TEMP\<close>, the three methods of the
  view that a call uses, and the host's byte order and size of a C \<open>unsigned long\<close>
  (which \<open>struct\<close> uses for a format without a byte-order prefix).
\<close>

record 'v binaryninja =
  LLIL_REG_IS_TEMP :: "int \<Rightarrow> bool"
  get_function_at :: "'v \<Rightarrow> int \<Rightarrow> LowLevelILFunction option"
  create_user_function :: "'v \<Rightarrow> int \<Rightarrow> 'v"
  update_analysis_and_wait :: "'v \<Rightarrow> 'v"
  host_little_endian :: bool
  host_long_size :: nat

section \<open>The register file\<close>

text \<open>
  The common prologue of \<open>set_register_value\<close> and \<open>get_register_value\<close>:
  a temporary (an integer with the marker, or an \<open>ILRegister\<close> whose index has
  it) gives \<open>Inl\<close> of its index, the key of the store; anything else gives
  \<open>Inr\<close> of the key looked up in \<open>arch.regs\<close> (an \<open>ILRegister\<close> is replaced by
  its name).
\<close>

definition resolve_register :: "'v binaryninja \<Rightarrow> register \<Rightarrow> int + reg_id" where
  "resolve_register bn register =
     (case register of
        Id (Index n) \<Rightarrow> if LLIL_REG_IS_TEMP bn n then Inl n else Inr (Index n)
      | Id (Name nm) \<Rightarrow> Inr (Name nm)
      | ILReg r \<Rightarrow> if \<not> LLIL_REG_IS_TEMP bn (index r) then Inr (Name (name r)) else Inl (index r))"

definition set_register_value ::
  "'v binaryninja \<Rightarrow> register \<Rightarrow> int \<Rightarrow> ('v emilator, int) exec" where
  "set_register_value bn register value s =
     (case resolve_register bn register of
        Inl t \<Rightarrow> (Inr value, s\<lparr>registers := (registers s)(Index t \<mapsto> value)\<rparr>)
      | Inr key \<Rightarrow>
          (case regs (arch (cur_function s)) key of
             None \<Rightarrow> (Inl KeyError, s)
           | Some reg_info \<Rightarrow>
               let value = (if value < 0 then value + push_bit (size_bytes reg_info * 8) 1 else value)
               in if key = full_width_reg reg_info
                  then (Inr value, s\<lparr>registers := (registers s)(key \<mapsto> value)\<rparr>)
                  else
                    (case regs (arch (cur_function s)) (full_width_reg reg_info) of
                       None \<Rightarrow> (Inl KeyError, s)
                     | Some full_width_reg_info \<Rightarrow>
                         let full_width_reg_value = registers s (full_width_reg full_width_reg_info)
                         in if full_width_reg_value = None \<and>
                               (extend_policy reg_info = NoExtend \<or> offset reg_info \<noteq> 0)
                            then (Inl UndefinedError, s)
                            else
                              (case extend_policy reg_info of
                                 ZeroExtendToFullWidth \<Rightarrow>
                                   (Inr value,
                                    s\<lparr>registers := (registers s)(full_width_reg full_width_reg_info \<mapsto> value)\<rparr>)
                               | SignExtendToFullWidth \<Rightarrow>
                                   let v = (value XOR (push_bit (size_bytes reg_info * 8) 1 - 1))
                                           - (push_bit (size_bytes reg_info * 8) 1 - 1)
                                           + push_bit (size_bytes full_width_reg_info * 8) 1
                                   in (Inr v,
                                       s\<lparr>registers := (registers s)(full_width_reg full_width_reg_info \<mapsto> v)\<rparr>)
                               | NoExtend \<Rightarrow>
                                   (case full_width_reg_value of
                                      None \<Rightarrow> (Inl TypeError, s)
                                    | Some fv \<Rightarrow>
                                        let mask = push_bit (size_bytes reg_info * 8) 1 - 1;
                                            full_mask = push_bit (size_bytes full_width_reg_info * 8) 1 - 1;
                                            reg_bits = push_bit (offset reg_info * 8) mask;
                                            v = (fv AND (full_mask XOR reg_bits))
                                                OR push_bit (offset reg_info * 8) value
                                        in (Inr v,
                                            s\<lparr>registers := (registers s)(full_width_reg full_width_reg_info \<mapsto> v)\<rparr>))))))"

definition get_register_value ::
  "'v binaryninja \<Rightarrow> register \<Rightarrow> ('v emilator, int) exec" where
  "get_register_value bn register s =
     (case resolve_register bn register of
        Inl t \<Rightarrow>
          (case registers s (Index t) of
             None \<Rightarrow> (Inl UndefinedError, s)
           | Some reg_value \<Rightarrow> (Inr reg_value, s))
      | Inr key \<Rightarrow>
          (case regs (arch (cur_function s)) key of
             None \<Rightarrow> (Inl KeyError, s)
           | Some reg_info \<Rightarrow>
               (case registers s (full_width_reg reg_info) of
                  None \<Rightarrow> (Inl UndefinedError, s)
                | Some full_reg_value \<Rightarrow>
                    let mask = push_bit (size_bytes reg_info * 8) 1 - 1
                    in if key = full_width_reg reg_info
                       then (Inr (full_reg_value AND mask), s)
                       else
                         let reg_bits = push_bit (offset reg_info * 8) mask
                         in (Inr (drop_bit (offset reg_info * 8) (full_reg_value AND reg_bits)), s))))"

text \<open>
  The module-level helper \<open>sign_extend(value, bits)\<close>. A shift by a negative count
  raises \<open>ValueError\<close> in Python.
\<close>

definition sign_extend :: "int \<Rightarrow> int \<Rightarrow> error + int" where
  "sign_extend value bits =
     (if bits - 1 < 0 then Inl ValueError
      else let sign_bit = push_bit (nat (bits - 1)) 1
           in Inr ((value AND (sign_bit - 1)) - (value AND sign_bit)))"

section \<open>The flag store\<close>

definition set_flag_value :: "int \<Rightarrow> pyval \<Rightarrow> ('v emilator, pyval) exec" where
  "set_flag_value flag value s = (Inr value, s\<lparr>flags := (flags s)(flag \<mapsto> value)\<rparr>)"

definition get_flag_value :: "int \<Rightarrow> ('v emilator, pyval) exec" where
  "get_flag_value flag s =
     (Inr (case flags s flag of None \<Rightarrow> PBool False | Some value \<Rightarrow> value), s)"

section \<open>The memory image\<close>

text \<open>
  Modelled from the spec: the class \<open>Memory\<close> of the module \<open>memory\<close>, which the
  interpreter imports and which is not among the sources. The spec's section 4.2
  gives its contract: a segment covers the addresses from its base up to its base
  plus its length; \<open>contains\<close> is true iff some segment covers the address; a
  read returns the raw bytes at the address and a write stores them, and both
  fail with \<open>MemoryAccessError\<close> when the address is not covered or the access
  would cross the segment's end.
\<close>

definition covers :: "segment \<Rightarrow> int \<Rightarrow> bool" where
  "covers seg addr = (seg_start seg \<le> addr \<and> addr < seg_start seg + int (seg_length seg))"

definition mem_contains :: "segment list \<Rightarrow> int \<Rightarrow> bool" where
  "mem_contains m addr = (find (\<lambda>seg. covers seg addr) m \<noteq> None)"

definition mem_read :: "segment list \<Rightarrow> int \<Rightarrow> nat \<Rightarrow> error + byte list" where
  "mem_read m addr n =
     (case find (\<lambda>seg. covers seg addr) m of
        None \<Rightarrow> Inl MemoryAccessError
      | Some seg \<Rightarrow>
          if addr + int n \<le> seg_start seg + int (seg_length seg)
          then Inr (take n (drop (nat (addr - seg_start seg)) (seg_data seg)))
          else Inl MemoryAccessError)"

fun mem_write :: "segment list \<Rightarrow> int \<Rightarrow> byte list \<Rightarrow> error + segment list" where
  "mem_write [] addr bs = Inl MemoryAccessError"
| "mem_write (seg # m) addr bs =
     (if covers seg addr
      then (if addr + int (length bs) \<le> seg_start seg + int (seg_length seg)
            then Inr (seg\<lparr>seg_data :=
                        take (nat (addr - seg_start seg)) (seg_data seg) @ bs @
                        drop (nat (addr - seg_start seg) + length bs) (seg_data seg)\<rparr> # m)
            else Inl MemoryAccessError)
      else (case mem_write m addr bs of
              Inl e \<Rightarrow> Inl e
            | Inr m' \<Rightarrow> Inr (seg # m')))"

subsection \<open>Packing integers\<close>

text \<open>
  \<open>struct.pack\<close> and \<open>struct.unpack\<close> for the one-item formats the interpreter
  builds: the code of \<open>fmt[length]\<close> (\<open>B\<close>, \<open>H\<close>, \<open>L\<close>, \<open>Q\<close> for 1, 2, 4, 8),
  after \<open><\<close> (little-endian, standard sizes) when \<open>prefixed\<close>, and after
  nothing otherwise, which is the host's byte order and the host's sizes
  (\<open>L\<close> is a C \<open>unsigned long\<close>). A value outside the format's range, or a
  buffer of another size than the format's, raises \<open>struct.error\<close>.
\<close>

primrec le_bytes :: "nat \<Rightarrow> int \<Rightarrow> byte list" where
  "le_bytes 0 v = []"
| "le_bytes (Suc n) v = nat (v mod 256) # le_bytes n (v div 256)"

primrec le_int :: "byte list \<Rightarrow> int" where
  "le_int [] = 0"
| "le_int (b # bs) = int b + 256 * le_int bs"

definition fmt_size :: "'v binaryninja \<Rightarrow> bool \<Rightarrow> int \<Rightarrow> nat" where
  "fmt_size bn prefixed len = (if \<not> prefixed \<and> len = 4 then host_long_size bn else nat len)"

definition fmt_little :: "'v binaryninja \<Rightarrow> bool \<Rightarrow> bool" where
  "fmt_little bn prefixed = (prefixed \<or> host_little_endian bn)"

definition struct_pack :: "'v binaryninja \<Rightarrow> bool \<Rightarrow> int \<Rightarrow> int \<Rightarrow> error + byte list" where
  "struct_pack bn prefixed len v =
     (let n = fmt_size bn prefixed len
      in if v < 0 \<or> 2 ^ (8 * n) \<le> v then Inl StructError
         else Inr (if fmt_little bn prefixed then le_bytes n v else rev (le_bytes n v)))"

definition struct_unpack :: "'v binaryninja \<Rightarrow> bool \<Rightarrow> int \<Rightarrow> byte list \<Rightarrow> error + int" where
  "struct_unpack bn prefixed len bs =
     (if length bs \<noteq> fmt_size bn prefixed len then Inl StructError
      else Inr (le_int (if fmt_little bn prefixed then bs else rev bs)))"

subsection \<open>Reading and writing\<close>

text \<open>
  \<open>read_memory\<close> checks the length first, then the address; whatever the read
  or the unpacking raises is turned into \<open>MemoryAccessError\<close> by the bare
  \<open>except\<close>.
\<close>

definition read_memory :: "'v binaryninja \<Rightarrow> int \<Rightarrow> int \<Rightarrow> ('v emilator, int) exec" where
  "read_memory bn addr len s =
     (if len \<notin> {1, 2, 4, 8} then (Inl ValueError, s)
      else
        let prefixed = (endianness (arch (cur_function s)) = LittleEndian)
        in if \<not> mem_contains (memory s) addr then (Inl MemoryAccessError, s)
           else
             (case mem_read (memory s) addr (nat len) of
                Inl e \<Rightarrow> (Inl MemoryAccessError, s)
              | Inr bs \<Rightarrow>
                  (case struct_unpack bn prefixed len bs of
                     Inl e \<Rightarrow> (Inl MemoryAccessError, s)
                   | Inr v \<Rightarrow> (Inr v, s))))"

text \<open>
  The \<open>data\<close> argument of \<open>write_memory\<close> is an integer, packed before it is
  written, or bytes, written as they are; \<open>length\<close> is optional (\<open>None\<close> when
  left out). \<open>write_memory\<close> checks the address first, and the length only
  for an integer.
\<close>

datatype mem_data = IntData int | BytesData "byte list"

definition write_memory ::
  "'v binaryninja \<Rightarrow> int \<Rightarrow> mem_data \<Rightarrow> int option \<Rightarrow> ('v emilator, bool) exec" where
  "write_memory bn addr data len s =
     (if \<not> mem_contains (memory s) addr then (Inl MemoryAccessError, s)
      else
        (case (case data of
                 BytesData bs \<Rightarrow> Inr bs
               | IntData v \<Rightarrow>
                   (case len of
                      None \<Rightarrow> Inl KeyError
                    | Some l \<Rightarrow>
                        if l \<notin> {1, 2, 4, 8} then Inl KeyError
                        else struct_pack bn (endianness (arch (cur_function s)) = LittleEndian) l v)) of
           Inl e \<Rightarrow> (Inl e, s)
         | Inr bs \<Rightarrow>
             (case mem_write (memory s) addr bs of
                Inl e \<Rightarrow> (Inl e, s)
              | Inr m' \<Rightarrow> (Inr True, s\<lparr>memory := m'\<rparr>))))"

section \<open>The evaluator\<close>

text \<open>
  A function hook is a callable applied to the interpreter; it may change any
  of its fields and may raise. The hook registry \<open>self._function_hooks\<close> is a
  dictionary from call targets to hooks, and is kept beside the state, which
  hooks receive.

  To tell what a call did, the evaluator's state pairs the interpreter with a
  log of the calls made to hooks and to the view; nothing reads the log.
\<close>

type_synonym 'v hook = "('v emilator, unit) exec"

datatype event =
    HookInvoked int
  | GetFunctionAt int
  | CreateUserFunction int
  | UpdateAnalysisAndWait

definition on_emilator :: "('v emilator, 'a) exec \<Rightarrow> ('v emilator \<times> event list, 'a) exec" where
  "on_emilator m = (\<lambda>(s, log). case m s of (r, s') \<Rightarrow> (r, (s', log)))"

definition emit :: "event \<Rightarrow> ('v emilator \<times> event list, unit) exec" where
  "emit ev = (\<lambda>(s, log). (Inr (), (s, log @ [ev])))"

definition reads :: "('v emilator \<Rightarrow> 'a) \<Rightarrow> ('v emilator \<times> event list, 'a) exec" where
  "reads f = (\<lambda>(s, log). (Inr (f s), (s, log)))"

definition modifies :: "('v emilator \<Rightarrow> 'v emilator) \<Rightarrow> ('v emilator \<times> event list, unit) exec" where
  "modifies f = (\<lambda>(s, log). (Inr (), (f s, log)))"

text \<open>
  Python's \<open>&\<close>, \<open>|\<close> and \<open>^\<close>: on two booleans the result is a boolean,
  otherwise the integer operation on the operands' integer values.
\<close>

fun py_and :: "pyval \<Rightarrow> pyval \<Rightarrow> pyval" where
  "py_and (PBool a) (PBool b) = PBool (a \<and> b)"
| "py_and x y = PInt (int_of x AND int_of y)"

fun py_or :: "pyval \<Rightarrow> pyval \<Rightarrow> pyval" where
  "py_or (PBool a) (PBool b) = PBool (a \<or> b)"
| "py_or x y = PInt (int_of x OR int_of y)"

fun py_xor :: "pyval \<Rightarrow> pyval \<Rightarrow> pyval" where
  "py_xor (PBool a) (PBool b) = PBool (a \<noteq> b)"
| "py_xor x y = PInt (int_of x XOR int_of y)"

text \<open>
  Modelled from the spec: the method \<open>visit\<close> of the base class
  \<open>LLILVisitor\<close> (module \<open>llilvisitor\<close>, not among the sources), which the
  spec describes as one \<open>evaluate(expression)\<close> that dispatches on the
  expression's kind. Each equation below is the body of the \<open>visit_\<close> method
  of that kind, from the sources. A value stored in a register or in memory is
  stored as its integer.
\<close>

fun visit ::
  "'v binaryninja \<Rightarrow> (int \<rightharpoonup> 'v hook) \<Rightarrow> expr \<Rightarrow> ('v emilator \<times> event list, pyval) exec" where
  "visit bn hooks (LLIL_SET_REG dest src) =
     and_then (visit bn hooks src) (\<lambda>value.
     and_then (on_emilator (set_register_value bn dest (int_of value))) (\<lambda>_.
     returns (PBool True)))"
| "visit bn hooks (LLIL_CONST constant) = returns (PInt constant)"
| "visit bn hooks (LLIL_CONST_PTR constant) = returns (PInt constant)"
| "visit bn hooks (LLIL_REG src) =
     and_then (on_emilator (get_register_value bn src)) (\<lambda>value.
     returns (PInt value))"
| "visit bn hooks (LLIL_LOAD sz src) =
     and_then (visit bn hooks src) (\<lambda>addr.
     and_then (on_emilator (read_memory bn (int_of addr) (int sz))) (\<lambda>value.
     returns (PInt value)))"
| "visit bn hooks (LLIL_STORE sz dest src) =
     and_then (visit bn hooks dest) (\<lambda>addr.
     and_then (visit bn hooks src) (\<lambda>value.
     and_then (on_emilator
                 (write_memory bn (int_of addr) (IntData (int_of value)) (Some (int sz)))) (\<lambda>_.
     returns (PBool True))))"
| "visit bn hooks (LLIL_PUSH sz src) =
     and_then (reads (\<lambda>s. stack_pointer (arch (cur_function s)))) (\<lambda>sp.
     and_then (visit bn hooks src) (\<lambda>value.
     and_then (on_emilator (get_register_value bn (Id sp))) (\<lambda>sp_value.
     and_then (on_emilator
                 (write_memory bn sp_value (IntData (int_of value)) (Some (int sz)))) (\<lambda>_.
     and_then (on_emilator (set_register_value bn (Id sp) (sp_value - int sz))) (\<lambda>r.
     returns (PInt r))))))"
| "visit bn hooks (LLIL_POP sz) =
     and_then (reads (\<lambda>s. stack_pointer (arch (cur_function s)))) (\<lambda>sp.
     and_then (on_emilator (get_register_value bn (Id sp))) (\<lambda>sp_value.
     and_then (on_emilator (read_memory bn (sp_value + int sz) (int sz))) (\<lambda>value.
     and_then (on_emilator (set_register_value bn (Id sp) (sp_value + int sz))) (\<lambda>_.
     returns (PInt value)))))"
| "visit bn hooks (LLIL_GOTO dest) =
     and_then (modifies (\<lambda>s. s\<lparr>instr_index := dest\<rparr>)) (\<lambda>_.
     returns (PInt dest))"
| "visit bn hooks (LLIL_IF condition true false) =
     and_then (visit bn hooks condition) (\<lambda>c.
     and_then (modifies (\<lambda>s. s\<lparr>instr_index := (if truthy c then true else false)\<rparr>)) (\<lambda>_.
     returns c))"
| "visit bn hooks (LLIL_CMP_NE left right) =
     and_then (visit bn hooks left) (\<lambda>l.
     and_then (visit bn hooks right) (\<lambda>r.
     returns (PBool (int_of l \<noteq> int_of r))))"
| "visit bn hooks (LLIL_CMP_E left right) =
     and_then (visit bn hooks left) (\<lambda>l.
     and_then (visit bn hooks right) (\<lambda>r.
     returns (PBool (int_of l = int_of r))))"
| "visit bn hooks (LLIL_CMP_SLT sz left right) =
     and_then (visit bn hooks left) (\<lambda>l.
     and_then (visit bn hooks right) (\<lambda>r.
     if sz = 0 then raises ValueError
     else
       let sign_bit = push_bit (sz * 8 - 1) 1;
           l' = (if int_of l AND sign_bit \<noteq> 0 then int_of l - push_bit (sz * 8) 1 else int_of l);
           r' = (if int_of r AND sign_bit \<noteq> 0 then int_of r - push_bit (sz * 8) 1 else int_of r)
       in returns (PBool (l' < r'))))"
| "visit bn hooks (LLIL_CMP_UGT left right) =
     and_then (visit bn hooks left) (\<lambda>l.
     and_then (visit bn hooks right) (\<lambda>r.
     returns (PBool (int_of l > int_of r))))"
| "visit bn hooks (LLIL_ADD sz left right) =
     and_then (visit bn hooks left) (\<lambda>l.
     and_then (visit bn hooks right) (\<lambda>r.
     let mask = push_bit (sz * 8) 1 - 1
     in returns (PInt ((int_of l + int_of r) AND mask))))"
| "visit bn hooks (LLIL_AND left right) =
     and_then (visit bn hooks left) (\<lambda>l.
     and_then (visit bn hooks right) (\<lambda>r.
     returns (py_and l r)))"
| "visit bn hooks (LLIL_OR left right) =
     and_then (visit bn hooks left) (\<lambda>l.
     and_then (visit bn hooks right) (\<lambda>r.
     returns (py_or l r)))"
| "visit bn hooks (LLIL_SUB left right) =
     and_then (visit bn hooks left) (\<lambda>l.
     and_then (visit bn hooks right) (\<lambda>r.
     returns (PInt (int_of l - int_of r))))"
| "visit bn hooks (LLIL_SET_FLAG flag src) =
     and_then (visit bn hooks src) (\<lambda>value.
     on_emilator (set_flag_value flag value))"
| "visit bn hooks (LLIL_FLAG flag) = on_emilator (get_flag_value flag)"
| "visit bn hooks LLIL_RET = raises StopIteration"
| "visit bn hooks (LLIL_CALL dest) =
     and_then (visit bn hooks dest) (\<lambda>target.
     case hooks (int_of target) of
       Some hook \<Rightarrow>
         and_then (emit (HookInvoked (int_of target))) (\<lambda>_.
         and_then (on_emilator hook) (\<lambda>_.
         returns (PBool True)))
     | None \<Rightarrow>
         and_then (emit (GetFunctionAt (int_of target))) (\<lambda>_.
         and_then (reads (\<lambda>s. get_function_at bn (view s) (int_of target))) (\<lambda>found.
         and_then
           (case found of
              Some f \<Rightarrow> returns (Some f)
            | None \<Rightarrow>
                and_then (emit (CreateUserFunction (int_of target))) (\<lambda>_.
                and_then (modifies (\<lambda>s. s\<lparr>view := create_user_function bn (view s) (int_of target)\<rparr>)) (\<lambda>_.
                and_then (emit UpdateAnalysisAndWait) (\<lambda>_.
                and_then (modifies (\<lambda>s. s\<lparr>view := update_analysis_and_wait bn (view s)\<rparr>)) (\<lambda>_.
                and_then (emit (GetFunctionAt (int_of target))) (\<lambda>_.
                reads (\<lambda>s. get_function_at bn (view s) (int_of target)))))))) (\<lambda>target_function.
         case target_function of
           None \<Rightarrow> raises AttributeError
         | Some f \<Rightarrow>
             and_then (modifies (\<lambda>s. s\<lparr>cur_function := f, instr_index := 0\<rparr>)) (\<lambda>_.
             returns (PBool True))))))"
| "visit bn hooks (LLIL_SX sz src) =
     and_then (visit bn hooks src) (\<lambda>orig_value.
     if sz = 0 then raises ValueError
     else
       let sign_bit = push_bit (sz * 8 - 1) 1
       in returns (PInt ((int_of orig_value AND (sign_bit - 1)) - (int_of orig_value AND sign_bit))))"
| "visit bn hooks (LLIL_ZX src) = visit bn hooks src"
| "visit bn hooks (LLIL_XOR left right) =
     and_then (visit bn hooks left) (\<lambda>l.
     and_then (visit bn hooks right) (\<lambda>r.
     returns (py_xor l r)))"
| "visit bn hooks (LLIL_LSL sz left right) =
     and_then (visit bn hooks left) (\<lambda>l.
     and_then (visit bn hooks right) (\<lambda>r.
     if int_of r < 0 then raises ValueError
     else
       let mask = push_bit (sz * 8) 1 - 1
       in returns (PInt (push_bit (nat (int_of r)) (int_of l) AND mask))))"
| "visit bn hooks (LLIL_LSR left right) =
     and_then (visit bn hooks left) (\<lambda>l.
     and_then (visit bn hooks right) (\<lambda>r.
     if int_of r < 0 then raises ValueError
     else returns (PInt (drop_bit (nat (int_of r)) (int_of l)))))"

section \<open>A register family and an interpreter to run\<close>

text \<open>
  The register family of the spec's section 8: the full-width \<open>R64\<close> (8 bytes)
  with its aliases \<open>R32\<close> (4 bytes, zero-extending), \<open>R16\<close> and \<open>R8\<close> (2 bytes
  and 1 byte, not extending) and \<open>R8_signextend\<close> (1 byte, sign-extending), all
  at offset 0, and a full-width stack pointer \<open>SP\<close>. The architecture is
  little-endian. The marker of a temporary register is bit 31 of its index.
\<close>

definition family_regs :: "reg_id \<rightharpoonup> RegisterInfo" where
  "family_regs = map_of
     [(Name ''R64'', \<lparr>full_width_reg = Name ''R64'', size_bytes = 8, offset = 0, extend_policy = NoExtend\<rparr>),
      (Name ''R32'', \<lparr>full_width_reg = Name ''R64'', size_bytes = 4, offset = 0, extend_policy = ZeroExtendToFullWidth\<rparr>),
      (Name ''R16'', \<lparr>full_width_reg = Name ''R64'', size_bytes = 2, offset = 0, extend_policy = NoExtend\<rparr>),
      (Name ''R8'', \<lparr>full_width_reg = Name ''R64'', size_bytes = 1, offset = 0, extend_policy = NoExtend\<rparr>),
      (Name ''R8_signextend'', \<lparr>full_width_reg = Name ''R64'', size_bytes = 1, offset = 0, extend_policy = SignExtendToFullWidth\<rparr>),
      (Name ''SP'', \<lparr>full_width_reg = Name ''SP'', size_bytes = 8, offset = 0, extend_policy = NoExtend\<rparr>)]"

definition family_arch :: Architecture where
  "family_arch = \<lparr>regs = family_regs, stack_pointer = Name ''SP'', endianness = LittleEndian, address_size = 8\<rparr>"

definition family_bn :: "unit binaryninja" where
  "family_bn = \<lparr>LLIL_REG_IS_TEMP = (\<lambda>n. n AND 0x80000000 \<noteq> 0),
     get_function_at = (\<lambda>v a. None), create_user_function = (\<lambda>v a. v),
     update_analysis_and_wait = (\<lambda>v. v), host_little_endian = True, host_long_size = 8\<rparr>"

text \<open>A new interpreter: nothing set, nothing mapped, at instruction 0.\<close>

definition fresh :: "unit emilator" where
  "fresh = \<lparr>cur_function = \<lparr>arch = family_arch, instrs = []\<rparr>, view = (),
     registers = Map.empty, flags = Map.empty, memory = [], instr_index = 0\<rparr>"


text \<open>
  The interpreter of the spec's push/pop property: the stack pointer at
  \<open>0x2000\<close> and one zero-filled segment mapped over \<open>[0x1000, 0x3000)\<close>.
\<close>

definition stack_machine :: "unit emilator" where
  "stack_machine = fresh\<lparr>registers := [Name ''SP'' \<mapsto> 0x2000],
     memory := [\<lparr>seg_start = 0x1000, seg_length = 0x2000, seg_flags = 3,
                 seg_data = replicate 0x2000 0\<rparr>]\<rparr>"

text \<open>A function hook that sets flag 0 and returns.\<close>

definition flag_hook :: "unit hook" where
  "flag_hook s = (Inr (), s\<lparr>flags := (flags s)(0 \<mapsto> PBool True)\<rparr>)"

section \<open>Properties of the register file\<close>

lemmas family_defs = family_regs_def family_arch_def family_bn_def fresh_def

lemma mask_alt: "push_bit n (1::int) - 1 = mask n"
  by (simp add: mask_eq_exp_minus_1)

lemma slice_alt:
  "drop_bit m ((x::int) AND push_bit m (push_bit n 1 - 1)) = take_bit n (drop_bit m x)"
  unfolding mask_alt by (rule bit_eqI) (auto simp add: bit_simps)



text \<open>
  Claim C1. A write through a sign-extending sub-register should store the
  sign-extension of the written value to the parent's width, so that writing
  \<open>0xFF\<close> to the one-byte \<open>R8_signextend\<close> and reading \<open>R64\<close> gives
  \<open>0xFFFFFFFFFFFFFFFF\<close>. The code subtracts the all-ones mask of the
  sub-register where the sign bit belongs: the read gives \<open>0xFFFFFFFFFFFFFF01\<close>,
  whereas the module's own \<open>sign_extend\<close> gives \<open>-1\<close>, that is
  \<open>0xFFFFFFFFFFFFFFFF\<close> in 64 bits.
\<close>

theorem sign_extend_write_0xFF:
  "fst (get_register_value family_bn (Id (Name ''R64''))
     (snd (set_register_value family_bn (Id (Name ''R8_signextend'')) 0xFF fresh))) = Inr 0xFFFFFFFFFFFFFF01 \<and>
   map_sum id (\<lambda>v. v mod 2 ^ 64) (sign_extend 0xFF 8) = Inr 0xFFFFFFFFFFFFFFFF"
  by (simp add: set_register_value_def get_register_value_def resolve_register_def family_defs
      sign_extend_def)

text \<open>
  Claim C3. A negative value written to an architectural register should be
  stored as its residue modulo \<open>2^(size*8)\<close>. The code adds \<open>2^(size*8)\<close>
  once, which leaves a value below \<open>-2^(size*8)\<close> negative: writing
  \<open>-2^64 - 5\<close> to the 8-byte \<open>R64\<close> stores \<open>-5\<close>, and the residue is
  \<open>0xFFFFFFFFFFFFFFFB\<close>.
\<close>

theorem normalize_below_range:
  "set_register_value family_bn (Id (Name ''R64'')) (- (2 ^ 64) - 5) fresh =
     (Inr (- 5), fresh\<lparr>registers := [Name ''R64'' \<mapsto> - 5]\<rparr>) \<and>
   (- (2 ^ 64) - 5) mod 2 ^ 64 = (0xFFFFFFFFFFFFFFFB :: int)"
  by (simp add: set_register_value_def resolve_register_def family_defs)

text \<open>
  Claim C4. A write through a sub-register (a register that is not its own
  full-width register, both descriptors known to the architecture) raises
  \<open>UndefinedError\<close> exactly when the parent's full-width value is not set and
  the sub-register's policy is \<open>NoExtend\<close> or its offset is not zero; in every
  other case the write returns a value. So a write through a zero-extending
  sub-register at offset 0 succeeds on an unset parent.
\<close>

theorem set_undefined_iff:
  assumes "resolve_register bn register = Inr key"
      and "regs (arch (cur_function s)) key = Some reg_info"
      and "key \<noteq> full_width_reg reg_info"
      and "regs (arch (cur_function s)) (full_width_reg reg_info) = Some parent_info"
  shows "(fst (set_register_value bn register value s) = Inl UndefinedError) =
           (registers s (full_width_reg parent_info) = None \<and>
            (extend_policy reg_info = NoExtend \<or> offset reg_info \<noteq> 0))
         \<and> ((\<exists>v. fst (set_register_value bn register value s) = Inr v) =
           (\<not> (registers s (full_width_reg parent_info) = None \<and>
            (extend_policy reg_info = NoExtend \<or> offset reg_info \<noteq> 0))))"
  using assms
  by (cases "extend_policy reg_info"; cases "registers s (full_width_reg parent_info)")
     (simp_all add: set_register_value_def Let_def del: push_bit_of_1)

text \<open>
  Witness for C4 on the register family, nothing set: the write through \<open>R16\<close>
  (\<open>NoExtend\<close>) raises \<open>UndefinedError\<close>, the write through \<open>R32\<close>
  (zero-extending, offset 0) succeeds.
\<close>

theorem set_undefined_iff_witness:
  "fst (set_register_value family_bn (Id (Name ''R16'')) 5 fresh) = Inl UndefinedError \<and>
   (\<exists>v. fst (set_register_value family_bn (Id (Name ''R32'')) 0xAABBCCDD fresh) = Inr v)"
proof -
  have a: "fst (set_register_value family_bn (Id (Name ''R16'')) 5 fresh) = Inl UndefinedError"
    using set_undefined_iff [of family_bn "Id (Name ''R16'')" "Name ''R16''" fresh
        "\<lparr>full_width_reg = Name ''R64'', size_bytes = 2, offset = 0, extend_policy = NoExtend\<rparr>"
        "\<lparr>full_width_reg = Name ''R64'', size_bytes = 8, offset = 0, extend_policy = NoExtend\<rparr>" 5]
    by (simp add: resolve_register_def family_defs)
  have b: "\<exists>v. fst (set_register_value family_bn (Id (Name ''R32'')) 0xAABBCCDD fresh) = Inr v"
    using set_undefined_iff [of family_bn "Id (Name ''R32'')" "Name ''R32''" fresh
        "\<lparr>full_width_reg = Name ''R64'', size_bytes = 4, offset = 0, extend_policy = ZeroExtendToFullWidth\<rparr>"
        "\<lparr>full_width_reg = Name ''R64'', size_bytes = 8, offset = 0, extend_policy = NoExtend\<rparr>" "0xAABBCCDD"]
    by (simp add: resolve_register_def family_defs)
  from a b show ?thesis by blast
qed




text \<open>
  Claim C7. Reading a sub-register returns the bits
  \<open>[offset*8, offset*8 + size*8)\<close> of the value stored for its full-width
  register, shifted down to bit 0, and leaves the state as it is.
\<close>

theorem get_slice:
  assumes "resolve_register bn register = Inr key"
      and "regs (arch (cur_function s)) key = Some reg_info"
      and "key \<noteq> full_width_reg reg_info"
      and "registers s (full_width_reg reg_info) = Some full"
  shows "get_register_value bn register s =
           (Inr (take_bit (size_bytes reg_info * 8) (drop_bit (offset reg_info * 8) full)), s)"
  using assms slice_alt [of "offset reg_info * 8" full "size_bytes reg_info * 8"]
  by (simp add: get_register_value_def Let_def)

text \<open>
  Witness for C7: after \<open>R64\<close> is set to \<open>0x1122334455667788\<close>, \<open>R32\<close> reads
  \<open>0x55667788\<close>, \<open>R16\<close> reads \<open>0x7788\<close> and \<open>R8\<close> reads \<open>0x88\<close>.
\<close>

theorem get_slice_witness:
  "set_register_value family_bn (Id (Name ''R64'')) 0x1122334455667788 fresh =
     (Inr 0x1122334455667788, fresh\<lparr>registers := [Name ''R64'' \<mapsto> 0x1122334455667788]\<rparr>) \<and>
   get_register_value family_bn (Id (Name ''R32''))
     (fresh\<lparr>registers := [Name ''R64'' \<mapsto> 0x1122334455667788]\<rparr>) =
     (Inr 0x55667788, fresh\<lparr>registers := [Name ''R64'' \<mapsto> 0x1122334455667788]\<rparr>) \<and>
   get_register_value family_bn (Id (Name ''R16''))
     (fresh\<lparr>registers := [Name ''R64'' \<mapsto> 0x1122334455667788]\<rparr>) =
     (Inr 0x7788, fresh\<lparr>registers := [Name ''R64'' \<mapsto> 0x1122334455667788]\<rparr>) \<and>
   get_register_value family_bn (Id (Name ''R8''))
     (fresh\<lparr>registers := [Name ''R64'' \<mapsto> 0x1122334455667788]\<rparr>) =
     (Inr 0x88, fresh\<lparr>registers := [Name ''R64'' \<mapsto> 0x1122334455667788]\<rparr>)"
proof -
  let ?s = "fresh\<lparr>registers := [Name ''R64'' \<mapsto> 0x1122334455667788]\<rparr>"
  have set64: "set_register_value family_bn (Id (Name ''R64'')) 0x1122334455667788 fresh =
                 (Inr 0x1122334455667788, ?s)"
    by (simp add: set_register_value_def resolve_register_def family_defs)
  have r32: "get_register_value family_bn (Id (Name ''R32'')) ?s =
               (Inr (take_bit (4 * 8) (drop_bit (0 * 8) 0x1122334455667788)), ?s)"
    using get_slice [of family_bn "Id (Name ''R32'')" "Name ''R32''" ?s
        "\<lparr>full_width_reg = Name ''R64'', size_bytes = 4, offset = 0, extend_policy = ZeroExtendToFullWidth\<rparr>"
        "0x1122334455667788"]
    by (simp add: resolve_register_def family_defs)
  have r16: "get_register_value family_bn (Id (Name ''R16'')) ?s =
               (Inr (take_bit (2 * 8) (drop_bit (0 * 8) 0x1122334455667788)), ?s)"
    using get_slice [of family_bn "Id (Name ''R16'')" "Name ''R16''" ?s
        "\<lparr>full_width_reg = Name ''R64'', size_bytes = 2, offset = 0, extend_policy = NoExtend\<rparr>"
        "0x1122334455667788"]
    by (simp add: resolve_register_def family_defs)
  have r8: "get_register_value family_bn (Id (Name ''R8'')) ?s =
               (Inr (take_bit (1 * 8) (drop_bit (0 * 8) 0x1122334455667788)), ?s)"
    using get_slice [of family_bn "Id (Name ''R8'')" "Name ''R8''" ?s
        "\<lparr>full_width_reg = Name ''R64'', size_bytes = 1, offset = 0, extend_policy = NoExtend\<rparr>"
        "0x1122334455667788"]
    by (simp add: resolve_register_def family_defs)
  show ?thesis
    using set64 r32 r16 r8 by simp
qed

text \<open>
  Claim C10. \<open>get_register_value\<close> is a pure read: whatever the register
  argument, and whether it returns a value or raises, the state it leaves
  (register store with the temporaries, flag store, memory image, instruction
  index, active function, view) is the state it was given.
\<close>

theorem get_register_value_pure: "snd (get_register_value bn register s) = s"
  by (simp add: get_register_value_def Let_def split: sum.split option.split)

text \<open>
  Witness for C10: a read that raises (\<open>R8\<close> with nothing set) and a read that
  returns both leave the state unchanged.
\<close>

theorem get_register_value_pure_witness:
  "snd (get_register_value family_bn (Id (Name ''R8'')) fresh) = fresh \<and>
   fst (get_register_value family_bn (Id (Name ''R8'')) fresh) = Inl UndefinedError \<and>
   snd (get_register_value family_bn (Id (Name ''R64'')) (fresh\<lparr>registers := [Name ''R64'' \<mapsto> 7]\<rparr>))
     = fresh\<lparr>registers := [Name ''R64'' \<mapsto> 7]\<rparr>"
  using get_register_value_pure [of family_bn "Id (Name ''R8'')" fresh]
    get_register_value_pure [of family_bn "Id (Name ''R64'')" "fresh\<lparr>registers := [Name ''R64'' \<mapsto> 7]\<rparr>"]
  by (simp add: get_register_value_def resolve_register_def family_defs)

section \<open>Properties of memory access\<close>

text \<open>
  Claim C8, as the code has it. A read of a length outside \<open>{1, 2, 4, 8}\<close>
  raises the length's \<open>ValueError\<close> at every address, mapped or not, and
  leaves the state as it is. A write of an integer with such a length (or with
  no length) never succeeds either, but \<open>write_memory\<close> looks at the address
  first: it raises \<open>MemoryAccessError\<close> at an address that is not mapped, and
  the length's \<open>KeyError\<close> at a mapped one. A write of bytes does not
  look at the length.
\<close>

theorem invalid_width_fails:
  assumes "len \<notin> {1, 2, 4, 8}"
  shows "read_memory bn addr len s = (Inl ValueError, s) \<and>
         write_memory bn addr (IntData v) (Some len) s =
           (if mem_contains (memory s) addr then (Inl KeyError, s) else (Inl MemoryAccessError, s)) \<and>
         write_memory bn addr (IntData v) None s =
           (if mem_contains (memory s) addr then (Inl KeyError, s) else (Inl MemoryAccessError, s)) \<and>
         write_memory bn addr (BytesData bs) (Some len) s = write_memory bn addr (BytesData bs) None s"
  using assms by (simp add: read_memory_def write_memory_def)

text \<open>
  Witness for C8 on the interpreter with \<open>[0x1000, 0x3000)\<close> mapped, length 3:
  the read and the write at \<open>0x1000\<close> raise the length's error, the write at
  the unmapped address 0 raises \<open>MemoryAccessError\<close>.
\<close>

theorem invalid_width_fails_witness:
  "(3::int) \<notin> {1, 2, 4, 8} \<and>
   read_memory family_bn 0x1000 3 stack_machine = (Inl ValueError, stack_machine) \<and>
   write_memory family_bn 0x1000 (IntData 5) (Some 3) stack_machine = (Inl KeyError, stack_machine) \<and>
   write_memory family_bn 0 (IntData 5) None stack_machine = (Inl MemoryAccessError, stack_machine)"
proof -
  have h: "(3::int) \<notin> {1, 2, 4, 8}" by simp
  have a: "mem_contains (memory stack_machine) 0x1000"
    by (simp add: mem_contains_def covers_def stack_machine_def)
  have b: "\<not> mem_contains (memory stack_machine) 0"
    by (simp add: mem_contains_def covers_def stack_machine_def)
  show ?thesis
    using h a b invalid_width_fails [OF h, of family_bn "0x1000" stack_machine 5]
      invalid_width_fails [OF h, of family_bn 0 stack_machine 5]
    by simp
qed

text \<open>
  Counterexample to C8 as stated: on a new interpreter (nothing mapped), writing
  the integer 5 with length 3 at address 0 raises \<open>MemoryAccessError\<close>, not
  the error of an invalid length.
\<close>

theorem write_memory_unmapped_bad_length:
  "write_memory family_bn 0 (IntData 5) (Some 3) fresh = (Inl MemoryAccessError, fresh)"
  by (simp add: write_memory_def mem_contains_def fresh_def)

section \<open>Properties of the evaluator\<close>

lemma and_then_Inr: "m s = (Inr a, s') \<Longrightarrow> and_then m f s = f a s'"
  by (simp add: and_then_def)

lemma and_mask_mod: "(x::int) AND (2 ^ n - 1) = x mod 2 ^ n"
  by (simp add: mask_eq_exp_minus_1 [symmetric] take_bit_eq_mask [symmetric] take_bit_eq_mod)

lemma int_of_py_and: "int_of (py_and l r) = int_of l AND int_of r"
  by (cases l; cases r) simp_all

lemma int_of_py_or: "int_of (py_or l r) = int_of l OR int_of r"
  by (cases l; cases r) simp_all

lemma int_of_py_xor: "int_of (py_xor l r) = int_of l XOR int_of r"
  by (cases l; cases r) simp_all

lemma visit_const: "visit bn hooks (LLIL_CONST c) st = (Inr (PInt c), st)"
  by (simp add: returns_def)

text \<open>
  Claim C2. With the operands evaluating to \<open>l\<close> and then \<open>r\<close>: Add returns
  \<open>(l + r) mod 2^(size*8)\<close> and shift-left (by a count that is not negative)
  returns \<open>(l << r) mod 2^(size*8)\<close>, while Subtract returns \<open>l - r\<close> and And,
  Or and Xor return the bitwise combination, none of them reduced to the node's
  width.
\<close>

theorem binary_masking:
  assumes "visit bn hooks left st = (Inr l, st1)"
      and "visit bn hooks right st1 = (Inr r, st2)"
  shows "visit bn hooks (LLIL_ADD sz left right) st =
           (Inr (PInt ((int_of l + int_of r) mod 2 ^ (sz * 8))), st2) \<and>
         (0 \<le> int_of r \<longrightarrow>
            visit bn hooks (LLIL_LSL sz left right) st =
              (Inr (PInt ((int_of l * 2 ^ nat (int_of r)) mod 2 ^ (sz * 8))), st2)) \<and>
         visit bn hooks (LLIL_SUB left right) st = (Inr (PInt (int_of l - int_of r)), st2) \<and>
         visit bn hooks (LLIL_AND left right) st = (Inr (py_and l r), st2) \<and>
         int_of (py_and l r) = int_of l AND int_of r \<and>
         visit bn hooks (LLIL_OR left right) st = (Inr (py_or l r), st2) \<and>
         int_of (py_or l r) = int_of l OR int_of r \<and>
         visit bn hooks (LLIL_XOR left right) st = (Inr (py_xor l r), st2) \<and>
         int_of (py_xor l r) = int_of l XOR int_of r"
  using assms
  by (simp add: and_then_Inr returns_def raises_def and_mask_mod push_bit_eq_mult
      int_of_py_and int_of_py_or int_of_py_xor Let_def)

text \<open>
  Witness for C2 at width 1: \<open>0xFF + 2\<close> gives 1 and \<open>0xFF << 2\<close> gives
  \<open>0xFC\<close>, both reduced modulo 256; \<open>1 - 2\<close> gives \<open>-1\<close> and
  \<open>0x100 | 2\<close> gives \<open>0x102\<close>.
\<close>

theorem binary_masking_witness:
  "visit family_bn Map.empty (LLIL_ADD 1 (LLIL_CONST 0xFF) (LLIL_CONST 2)) (fresh, []) =
     (Inr (PInt 1), (fresh, [])) \<and>
   visit family_bn Map.empty (LLIL_LSL 1 (LLIL_CONST 0xFF) (LLIL_CONST 2)) (fresh, []) =
     (Inr (PInt 0xFC), (fresh, [])) \<and>
   visit family_bn Map.empty (LLIL_SUB (LLIL_CONST 1) (LLIL_CONST 2)) (fresh, []) =
     (Inr (PInt (- 1)), (fresh, [])) \<and>
   visit family_bn Map.empty (LLIL_OR (LLIL_CONST 0x100) (LLIL_CONST 2)) (fresh, []) =
     (Inr (PInt 0x102), (fresh, []))"
proof -
  have c: "\<And>k. visit family_bn Map.empty (LLIL_CONST k) (fresh, []) = (Inr (PInt k), (fresh, []))"
    by (rule visit_const)
  have a: "(0::int) \<le> int_of (PInt 2)" by simp
  show ?thesis
    using binary_masking [OF c [of "0xFF"] c [of 2], of 1] a
      binary_masking [OF c [of 1] c [of 2], of 1]
      binary_masking [OF c [of "0x100"] c [of 2], of 1]
    by simp
qed

text \<open>
  Claim C9. A call whose target is in the hook registry: the hook is applied
  once, to the interpreter as the evaluation of the target left it; when it
  returns, the call returns \<open>True\<close>, the interpreter is as the hook left it
  (the call itself assigns neither the active function nor the instruction
  index), and the only call logged is the hook's: the view is not asked for a
  function.
\<close>

theorem call_hook:
  assumes "visit bn hooks dest st = (Inr target, (s1, log1))"
      and "hooks (int_of target) = Some hook"
      and "hook s1 = (Inr u, s2)"
  shows "visit bn hooks (LLIL_CALL dest) st =
           (Inr (PBool True), (s2, log1 @ [HookInvoked (int_of target)]))"
  using assms
  by (simp add: and_then_def returns_def emit_def on_emilator_def)

text \<open>
  Witness for C9: with \<open>flag_hook\<close> registered at \<open>0x4000\<close>, the call of
  the constant \<open>0x4000\<close> on a new interpreter returns \<open>True\<close>, logs the one
  hook call, and leaves the active function, the instruction index and the view
  unchanged.
\<close>

theorem call_hook_witness:
  "visit family_bn [0x4000 \<mapsto> flag_hook] (LLIL_CALL (LLIL_CONST 0x4000)) (fresh, []) =
     (Inr (PBool True), (fresh\<lparr>flags := [0 \<mapsto> PBool True]\<rparr>, [HookInvoked 0x4000])) \<and>
   cur_function (fresh\<lparr>flags := [0 \<mapsto> PBool True]\<rparr>) = cur_function fresh \<and>
   instr_index (fresh\<lparr>flags := [0 \<mapsto> PBool True]\<rparr>) = instr_index fresh \<and>
   view (fresh\<lparr>flags := [0 \<mapsto> PBool True]\<rparr>) = view fresh"
proof -
  have d: "visit family_bn [0x4000 \<mapsto> flag_hook] (LLIL_CONST 0x4000) (fresh, []) =
             (Inr (PInt 0x4000), (fresh, []))"
    by (rule visit_const)
  have h: "[0x4000 \<mapsto> flag_hook] (int_of (PInt 0x4000)) = Some flag_hook"
    by simp
  have r: "flag_hook fresh = (Inr (), fresh\<lparr>flags := [0 \<mapsto> PBool True]\<rparr>)"
    by (simp add: flag_hook_def fresh_def)
  show ?thesis
    using call_hook [OF d h r] by simp
qed

section \<open>Push and pop\<close>

lemma length_le_bytes: "length (le_bytes n v) = n"
  by (induction n arbitrary: v) simp_all

lemma le_int_le_bytes: "0 \<le> v \<Longrightarrow> le_int (le_bytes n v) = v mod 256 ^ n"
proof (induction n arbitrary: v)
  case 0
  then show ?case by simp
next
  case (Suc n)
  have "0 \<le> v div 256"
    using Suc.prems by simp
  then have "le_int (le_bytes n (v div 256)) = (v div 256) mod 256 ^ n"
    by (rule Suc.IH)
  moreover have "v mod (256 * 256 ^ n) = 256 * (v div 256 mod 256 ^ n) + v mod 256"
    by (rule zmod_zmult2_eq) simp
  ultimately show ?case
    using Suc.prems by simp
qed

lemma covers_update: "covers (seg\<lparr>seg_data := d\<rparr>) a = covers seg a"
  by (simp add: covers_def)

lemma mem_write_find:
  assumes "find (\<lambda>x. covers x a) m = Some seg"
      and "a + int (length bs) \<le> seg_start seg + int (seg_length seg)"
  shows "\<exists>m'. mem_write m a bs = Inr m' \<and>
           find (\<lambda>x. covers x a) m' =
             Some (seg\<lparr>seg_data := take (nat (a - seg_start seg)) (seg_data seg) @ bs @
                     drop (nat (a - seg_start seg) + length bs) (seg_data seg)\<rparr>)"
  using assms
proof (induction m)
  case Nil
  then show ?case by simp
next
  case (Cons x m)
  show ?case
  proof (cases "covers x a")
    case True
    with Cons.prems show ?thesis
      by (simp add: covers_update)
  next
    case False
    with Cons.prems have "find (\<lambda>x. covers x a) m = Some seg"
      by simp
    from Cons.IH [OF this Cons.prems(2)] False show ?thesis
      by auto
  qed
qed

lemma read_back:
  assumes "k + length bs \<le> length d"
  shows "take (length bs) (drop k (take k d @ bs @ drop (k + length bs) d)) = bs"
  using assms by simp

lemma in_range_and_mask:
  assumes "0 \<le> (x::int)" and "x < 2 ^ n"
  shows "x AND (2 ^ n - 1) = x"
  using assms by (simp add: and_mask_mod)

lemma get_full_width:
  assumes "resolve_register bn (Id sp) = Inr sp"
      and "regs (arch (cur_function s)) sp = Some sp_info"
      and "full_width_reg sp_info = sp"
      and "registers s sp = Some p"
      and "0 \<le> p" and "p < 2 ^ (size_bytes sp_info * 8)"
  shows "get_register_value bn (Id sp) s = (Inr p, s)"
  using assms by (simp add: get_register_value_def Let_def in_range_and_mask)

lemma set_full_width:
  assumes "resolve_register bn (Id sp) = Inr sp"
      and "regs (arch (cur_function s)) sp = Some sp_info"
      and "full_width_reg sp_info = sp"
      and "0 \<le> p"
  shows "set_register_value bn (Id sp) p s = (Inr p, s\<lparr>registers := (registers s)(sp \<mapsto> p)\<rparr>)"
  using assms by (simp add: set_register_value_def Let_def)

lemma width_int: "sz \<in> {1, 2, 4, 8} \<Longrightarrow> int sz \<in> {1, 2, 4, 8}"
  by auto

lemma write_int:
  assumes "endianness (arch (cur_function s)) = LittleEndian"
      and "sz \<in> {1, 2, 4, 8}"
      and "0 \<le> v" and "v < 2 ^ (8 * sz)"
      and "find (\<lambda>x. covers x p) (memory s) = Some seg"
      and "mem_write (memory s) p (le_bytes sz v) = Inr m'"
  shows "write_memory bn p (IntData v) (Some (int sz)) s = (Inr True, s\<lparr>memory := m'\<rparr>)"
proof -
  have "int sz \<in> {1, 2, 4, 8}"
    using assms(2) by (rule width_int)
  moreover have "struct_pack bn True (int sz) v = Inr (le_bytes sz v)"
    using assms(3,4) by (simp add: struct_pack_def fmt_size_def fmt_little_def Let_def)
  moreover have "mem_contains (memory s) p"
    using assms(5) by (simp add: mem_contains_def)
  ultimately show ?thesis
    using assms(1,6) by (simp add: write_memory_def)
qed

lemma read_int:
  assumes "endianness (arch (cur_function s)) = LittleEndian"
      and "sz \<in> {1, 2, 4, 8}"
      and "0 \<le> v" and "v < 2 ^ (8 * sz)"
      and "find (\<lambda>x. covers x p) (memory s) = Some seg"
      and "p + int sz \<le> seg_start seg + int (seg_length seg)"
      and "take sz (drop (nat (p - seg_start seg)) (seg_data seg)) = le_bytes sz v"
  shows "read_memory bn p (int sz) s = (Inr v, s)"
proof -
  have w: "int sz \<in> {1, 2, 4, 8}"
    using assms(2) by (rule width_int)
  have c: "mem_contains (memory s) p"
    using assms(5) by (simp add: mem_contains_def)
  have r: "mem_read (memory s) p sz = Inr (le_bytes sz v)"
    using assms(5,6,7) by (simp add: mem_read_def)
  have "(256::int) ^ sz = 2 ^ (8 * sz)"
    using power_mult [of "2::int" 8 sz] by simp
  then have "v mod 256 ^ sz = v"
    using assms(3,4) by simp
  then have u: "struct_unpack bn True (int sz) (le_bytes sz v) = Inr v"
    using assms(3)
    by (simp add: struct_unpack_def fmt_size_def fmt_little_def length_le_bytes le_int_le_bytes)
  show ?thesis
    using assms(1) w c r u by (simp add: read_memory_def)
qed

lemma find_covers: "find (\<lambda>x. covers x a) m = Some seg \<Longrightarrow> covers seg a"
  by (induction m) (auto split: if_splits)

text \<open>
  Claim C5. Push followed by Pop of the same width is a round trip. On a
  little-endian architecture whose stack pointer is a full-width register
  holding \<open>p\<close>, with \<open>[p, p + size)\<close> inside the segment that covers \<open>p\<close>,
  a width in \<open>{1, 2, 4, 8}\<close> and a value that fits it: Push writes the value
  at \<open>p\<close>, the address before the decrement, and returns with the stack
  pointer at \<open>p - size\<close>; Pop then adds \<open>size\<close> first, reads at \<open>p\<close>,
  returns the value pushed, and leaves the register store as it was before the
  Push, the stack pointer reading \<open>p\<close> again.
\<close>

theorem push_pop_roundtrip:
  assumes sp: "stack_pointer (arch (cur_function s)) = sp"
      and res: "resolve_register bn (Id sp) = Inr sp"
      and info: "regs (arch (cur_function s)) sp = Some sp_info"
      and full: "full_width_reg sp_info = sp"
      and le: "endianness (arch (cur_function s)) = LittleEndian"
      and val: "registers s sp = Some p"
      and lo: "int sz \<le> p" and hi: "p < 2 ^ (size_bytes sp_info * 8)"
      and width: "sz \<in> {1, 2, 4, 8}"
      and v0: "0 \<le> v" and v1: "v < 2 ^ (8 * sz)"
      and seg: "find (\<lambda>x. covers x p) (memory s) = Some seg"
      and fit: "p + int sz \<le> seg_start seg + int (seg_length seg)"
      and buf: "length (seg_data seg) = seg_length seg"
  shows "\<exists>s1 s2.
           visit bn hooks (LLIL_PUSH sz (LLIL_CONST v)) (s, log) =
             (Inr (PInt (p - int sz)), (s1, log)) \<and>
           registers s1 = (registers s)(sp \<mapsto> p - int sz) \<and>
           read_memory bn p (int sz) s1 = (Inr v, s1) \<and>
           visit bn hooks (LLIL_POP sz) (s1, log) = (Inr (PInt v), (s2, log)) \<and>
           registers s2 = registers s \<and>
           get_register_value bn (Id sp) s2 = (Inr p, s2)"
proof -
  let ?k = "nat (p - seg_start seg)"
  let ?bs = "le_bytes sz v"
  let ?seg' = "seg\<lparr>seg_data := take ?k (seg_data seg) @ ?bs @
                  drop (?k + length ?bs) (seg_data seg)\<rparr>"
  have p0: "0 \<le> p" and q0: "0 \<le> p - int sz" and q1: "p - int sz < 2 ^ (size_bytes sp_info * 8)"
    using lo hi by simp_all
  have len: "length ?bs = sz"
    by (rule length_le_bytes)
  from mem_write_find [OF seg, of ?bs] fit len
  obtain m' where mw: "mem_write (memory s) p ?bs = Inr m'"
    and seg': "find (\<lambda>x. covers x p) m' = Some ?seg'"
    by auto
  define sa where "sa = s\<lparr>memory := m'\<rparr>"
  define s1 where "s1 = sa\<lparr>registers := (registers sa)(sp \<mapsto> p - int sz)\<rparr>"
  define s2 where "s2 = s1\<lparr>registers := (registers s1)(sp \<mapsto> p)\<rparr>"
  have g0: "get_register_value bn (Id sp) s = (Inr p, s)"
    using res info full val p0 hi by (rule get_full_width)
  have w0: "write_memory bn p (IntData v) (Some (int sz)) s = (Inr True, sa)"
    unfolding sa_def using le width v0 v1 seg mw by (rule write_int)
  have st0: "set_register_value bn (Id sp) (p - int sz) sa = (Inr (p - int sz), s1)"
    unfolding s1_def
    by (rule set_full_width [where sp_info = sp_info]) (simp_all add: sa_def res info full lo)
  have push: "visit bn hooks (LLIL_PUSH sz (LLIL_CONST v)) (s, log) =
                (Inr (PInt (p - int sz)), (s1, log))"
    by (simp add: and_then_def reads_def on_emilator_def returns_def sp g0 w0 st0)
  have r1: "registers s1 = (registers s)(sp \<mapsto> p - int sz)"
    by (simp add: s1_def sa_def)
  have g1: "get_register_value bn (Id sp) s1 = (Inr (p - int sz), s1)"
    by (rule get_full_width [where sp_info = sp_info])
       (use q1 in \<open>simp_all add: s1_def sa_def res info full lo\<close>)
  have "covers seg p"
    using seg by (rule find_covers)
  then have "?k + sz \<le> seg_length seg"
    using fit unfolding covers_def by linarith
  then have "?k + length ?bs \<le> length (seg_data seg)"
    using buf len by simp
  then have same: "take sz (drop (nat (p - seg_start ?seg')) (seg_data ?seg')) = ?bs"
    using read_back [of ?k ?bs "seg_data seg"] len by simp
  have rd: "read_memory bn p (int sz) s1 = (Inr v, s1)"
    by (rule read_int [where seg = ?seg'])
       (use le width v0 v1 seg' fit same in \<open>simp_all add: s1_def sa_def\<close>)
  have st1: "set_register_value bn (Id sp) p s1 = (Inr p, s2)"
    unfolding s2_def using p0
    by (simp add: set_full_width [where sp_info = sp_info] s1_def sa_def res info full)
  have sp1: "stack_pointer (arch (cur_function s1)) = sp"
    by (simp add: s1_def sa_def sp)
  have pop: "visit bn hooks (LLIL_POP sz) (s1, log) = (Inr (PInt v), (s2, log))"
    by (simp add: and_then_def reads_def on_emilator_def returns_def sp1 g1 rd st1)
  have r2: "registers s2 = registers s"
    using val by (auto simp add: s2_def s1_def sa_def)
  have g2: "get_register_value bn (Id sp) s2 = (Inr p, s2)"
    by (rule get_full_width [where sp_info = sp_info])
       (use hi in \<open>simp_all add: s2_def s1_def sa_def res info full p0\<close>)
  from push r1 rd pop r2 g2 show ?thesis
    by blast
qed

text \<open>
  Witness for C5, the spec's instance: stack pointer \<open>0x2000\<close>, memory mapped
  over \<open>[0x1000, 0x3000)\<close>, \<open>Push(8, 0xDEADBEEF)\<close> then \<open>Pop(8)\<close>. The Push
  leaves the stack pointer at \<open>0x1FF8\<close> and the value at \<open>0x2000\<close>; the Pop
  returns \<open>0xDEADBEEF\<close> and the stack pointer reads \<open>0x2000\<close>.
\<close>

theorem push_pop_roundtrip_witness:
  "\<exists>s1 s2.
     visit family_bn Map.empty (LLIL_PUSH 8 (LLIL_CONST 0xDEADBEEF)) (stack_machine, []) =
       (Inr (PInt 0x1FF8), (s1, [])) \<and>
     registers s1 (Name ''SP'') = Some 0x1FF8 \<and>
     read_memory family_bn 0x2000 8 s1 = (Inr 0xDEADBEEF, s1) \<and>
     visit family_bn Map.empty (LLIL_POP 8) (s1, []) = (Inr (PInt 0xDEADBEEF), (s2, [])) \<and>
     registers s2 = registers stack_machine \<and>
     get_register_value family_bn (Id (Name ''SP'')) s2 = (Inr 0x2000, s2)"
proof -
  let ?info = "\<lparr>full_width_reg = Name ''SP'', size_bytes = 8, offset = 0, extend_policy = NoExtend\<rparr>"
  let ?seg = "\<lparr>seg_start = 0x1000, seg_length = 0x2000, seg_flags = 3,
               seg_data = replicate 0x2000 (0::nat)\<rparr>"
  have sp: "stack_pointer (arch (cur_function stack_machine)) = Name ''SP''"
    by (simp add: stack_machine_def family_defs)
  have res: "resolve_register family_bn (Id (Name ''SP'')) = Inr (Name ''SP'')"
    by (simp add: resolve_register_def)
  have info: "regs (arch (cur_function stack_machine)) (Name ''SP'') = Some ?info"
    by (simp add: stack_machine_def family_defs)
  have full: "full_width_reg ?info = Name ''SP''"
    by simp
  have le: "endianness (arch (cur_function stack_machine)) = LittleEndian"
    by (simp add: stack_machine_def family_defs)
  have val: "registers stack_machine (Name ''SP'') = Some 0x2000"
    by (simp add: stack_machine_def)
  have lo: "int 8 \<le> 0x2000"
    by simp
  have hi: "(0x2000::int) < 2 ^ (size_bytes ?info * 8)"
    by simp
  have width: "(8::nat) \<in> {1, 2, 4, 8}"
    by simp
  have v0: "(0::int) \<le> 0xDEADBEEF"
    by simp
  have v1: "(0xDEADBEEF::int) < 2 ^ (8 * 8)"
    by simp
  have seg: "find (\<lambda>x. covers x 0x2000) (memory stack_machine) = Some ?seg"
    by (simp add: stack_machine_def covers_def)
  have fit: "0x2000 + int 8 \<le> seg_start ?seg + int (seg_length ?seg)"
    by simp
  have buf: "length (seg_data ?seg) = seg_length ?seg"
    by simp
  from push_pop_roundtrip [OF sp res info full le val lo hi width v0 v1 seg fit buf,
      of Map.empty "[]"]
  obtain s1 s2 where
    "visit family_bn Map.empty (LLIL_PUSH 8 (LLIL_CONST 0xDEADBEEF)) (stack_machine, []) =
       (Inr (PInt (0x2000 - int 8)), (s1, []))"
    "registers s1 = (registers stack_machine)(Name ''SP'' \<mapsto> 0x2000 - int 8)"
    "read_memory family_bn 0x2000 (int 8) s1 = (Inr 0xDEADBEEF, s1)"
    "visit family_bn Map.empty (LLIL_POP 8) (s1, []) = (Inr (PInt 0xDEADBEEF), (s2, []))"
    "registers s2 = registers stack_machine"
    "get_register_value family_bn (Id (Name ''SP'')) s2 = (Inr 0x2000, s2)"
    by blast
  then have
    "visit family_bn Map.empty (LLIL_PUSH 8 (LLIL_CONST 0xDEADBEEF)) (stack_machine, []) =
       (Inr (PInt 0x1FF8), (s1, [])) \<and>
     registers s1 (Name ''SP'') = Some 0x1FF8 \<and>
     read_memory family_bn 0x2000 8 s1 = (Inr 0xDEADBEEF, s1) \<and>
     visit family_bn Map.empty (LLIL_POP 8) (s1, []) = (Inr (PInt 0xDEADBEEF), (s2, [])) \<and>
     registers s2 = registers stack_machine \<and>
     get_register_value family_bn (Id (Name ''SP'')) s2 = (Inr 0x2000, s2)"
    by simp
  then show ?thesis
    by blast
qed

end
